theory Spec2Isabelle
  imports Main "HOL-Library.Sublist"
begin

section \<open>Data model\<close>

text \<open>
  The lifecycle states of a container. The enumeration is declared in package libpod,
  outside the files verified here; the code only compares states for equality, so the
  states are the constructors of a datatype.
\<close>

datatype ContainerStatus =
    ContainerStateUnknown
  | ContainerStateConfigured
  | ContainerStateCreated
  | ContainerStateRunning
  | ContainerStateStopped
  | ContainerStatePaused
  | ContainerStateExited

text \<open>
  A container handle (\<^verbatim>\<open>*libpod.Container\<close>) is known to the commands by the two
  configuration values they read from it. A nil pointer is \<open>None\<close> of
  \<open>Container option\<close>.
\<close>

record Container =
  ID :: string
  PodID :: string

text \<open>
  Messages are kept as the format pieces the code passes to the formatting call: literal
  text, an argument printed with \<^verbatim>\<open>%s\<close>, \<^verbatim>\<open>%q\<close> or \<^verbatim>\<open>%d\<close>.
\<close>

datatype piece = Lit string | VerbS string | VerbQ string | VerbD int

text \<open>
  Go errors as values. \<open>Errorf\<close> and \<open>Wrapf\<close> are the constructors of
  \<^verbatim>\<open>github.com/pkg/errors\<close>; \<open>ErrInvalidArg\<close> is libpod's sentinel; \<open>ErrNew\<close> is
  any other error, known by its message.
\<close>

datatype error =
    ErrInvalidArg
  | ErrNew string
  | Errorf "piece list"
  | Wrapf error "piece list"

text \<open>\<^verbatim>\<open>errors.Cause\<close>: the innermost error of a chain of wrappers.\<close>

fun Cause :: "error \<Rightarrow> error" where
  "Cause (Wrapf e m) = Cause e"
| "Cause e = e"




text \<open>
  The parsed command line (\<^verbatim>\<open>*cli.Context\<close>): the positional arguments and the
  lookups by flag name the commands use.
\<close>

record Context =
  Args :: "string list"
  Bool :: "string \<Rightarrow> bool"
  BoolT :: "string \<Rightarrow> bool"
  String :: "string \<Rightarrow> string"
  StringSlice :: "string \<Rightarrow> string list"
  IsSet :: "string \<Rightarrow> bool"
  GlobalIsSet :: "string \<Rightarrow> bool"
  GlobalInt :: "string \<Rightarrow> int"

text \<open>The flag declarations, by their Go type and their name.\<close>

datatype Flag = BoolFlag string | BoolTFlag string | StringFlag string | StringSliceFlag string

definition LatestFlag :: Flag where
  "LatestFlag = BoolFlag ''latest, l''"

definition startFlags :: "Flag list" where
  "startFlags =
     [BoolFlag ''attach, a'',
      StringFlag ''detach-keys'',
      BoolFlag ''interactive, i'',
      BoolTFlag ''sig-proxy'',
      LatestFlag]"

text \<open>
  A unit of work for the worker pool (\<^verbatim>\<open>shared.ParallelWorkerInput\<close>). The only
  closure the code builds is the removal of one container; it is kept as data: the
  container and the force flag it captured.
\<close>

datatype closure = RemoveContainerFunc Container bool

record ParallelWorkerInput =
  ContainerID :: string
  ParallelFunc :: closure

section \<open>The runtime and the other collaborators\<close>

text \<open>
  Everything the commands call outside the verified files: the libpod runtime, the
  methods of a container, the JSON decoder, and the helpers of the command package that
  live in other files (\<open>startAttachCtr\<close>, \<open>printParallelOutput\<close>, the worker pool).
  \<open>'w\<close> is the state of the world; every call takes it and returns it updated, so an
  answer may depend on everything done before. A Go pair \<open>(value, err)\<close> is a pair
  here too: the code tests both components on its own.

  \<open>Unmarshal\<close> is \<^verbatim>\<open>json.Unmarshal\<close> into a zero \<^verbatim>\<open>cc.CreateConfig\<close>: the value of
  the \<open>Rm\<close> field afterwards, and the error.
\<close>

record 'w Runtime =
  GetRuntime :: "'w \<Rightarrow> error option \<times> 'w"
  Shutdown :: "bool \<Rightarrow> 'w \<Rightarrow> 'w"
  LookupContainer :: "string \<Rightarrow> 'w \<Rightarrow> (Container option \<times> error option) \<times> 'w"
  GetLatestContainer :: "'w \<Rightarrow> (Container option \<times> error option) \<times> 'w"
  AllContainers :: "'w \<Rightarrow> (Container list \<times> error option) \<times> 'w"
  State :: "Container \<Rightarrow> 'w \<Rightarrow> (ContainerStatus \<times> error option) \<times> 'w"
  Start :: "Container \<Rightarrow> 'w \<Rightarrow> error option \<times> 'w"
  Wait :: "Container \<Rightarrow> 'w \<Rightarrow> (int \<times> error option) \<times> 'w"
  Cleanup :: "Container \<Rightarrow> 'w \<Rightarrow> error option \<times> 'w"
  GetArtifact :: "Container \<Rightarrow> string \<Rightarrow> 'w \<Rightarrow> (string \<times> error option) \<times> 'w"
  RemoveContainer :: "Container \<Rightarrow> bool \<Rightarrow> 'w \<Rightarrow> error option \<times> 'w"
  startAttachCtr :: "Container \<Rightarrow> bool \<Rightarrow> string \<Rightarrow> bool \<Rightarrow> bool \<Rightarrow> 'w \<Rightarrow> error option \<times> 'w"
  Unmarshal :: "string \<Rightarrow> bool \<times> error option"
  Parallelize :: "string \<Rightarrow> int"
  ParallelExecuteWorkerPool ::
    "int \<Rightarrow> ParallelWorkerInput list \<Rightarrow> 'w \<Rightarrow> ((string \<times> error option) list \<times> int) \<times> 'w"
  printParallelOutput :: "(string \<times> error option) list \<Rightarrow> int \<Rightarrow> string list \<times> error option"

text \<open>
  What a command does is recorded as the list of its events, in order: each call to a
  collaborator with what it answered, each line printed, each line logged, and the
  assignment to the package variable \<open>exitCode\<close>.
\<close>

datatype event =
    EvGetRuntime "error option"
  | EvShutdown bool
  | EvLookupContainer string "Container option" "error option"
  | EvGetLatestContainer "Container option" "error option"
  | EvAllContainers "Container list" "error option"
  | EvState Container ContainerStatus "error option"
  | EvStart Container "error option"
  | EvStartAttachCtr Container bool string bool bool "error option"
  | EvWait Container int "error option"
  | EvCleanup Container "error option"
  | EvGetArtifact Container string string "error option"
  | EvRemoveContainer Container bool "error option"
  | EvParallelExecuteWorkerPool int "ParallelWorkerInput list"
  | EvPrintln string
  | EvStderr error
  | EvLogrusErrorf "piece list" "error option"
  | EvLogrusDebugf "piece list"
  | EvExitCode int

text \<open>How a command ends: it returns its error (\<open>None\<close> is nil), or it panics on a nil pointer.\<close>

datatype result = Returned "error option" | Panicked

text \<open>\<^verbatim>\<open>if lastError != nil { fmt.Fprintln(os.Stderr, lastError) }\<close>\<close>

fun flush :: "error option \<Rightarrow> event list" where
  "flush None = []"
| "flush (Some e) = [EvStderr e]"

section \<open>common.go\<close>

text \<open>\<^verbatim>\<open>strings.Split(f.Name, ",")[0]\<close>: the name up to its first comma.\<close>

definition Split_first :: "string \<Rightarrow> string" where
  "Split_first n = takeWhile (\<lambda>ch. ch \<noteq> CHR '','') n"

text \<open>
  \<^verbatim>\<open>regexp.MatchString("^-.+", v)\<close>: the value starts with a dash that is followed by
  a character other than a newline.
\<close>

fun MatchString_dash :: "string \<Rightarrow> bool" where
  "MatchString_dash (c1 # c2 # rest) = (c1 = CHR ''-'' \<and> c2 \<noteq> CHR 0x0A)"
| "MatchString_dash _ = False"

fun validateFlags :: "Context \<Rightarrow> Flag list \<Rightarrow> error option" where
  "validateFlags c [] = None"
| "validateFlags c (StringSliceFlag n # flags) =
     (let name = Split_first n; val = StringSlice c name in
      if list_ex MatchString_dash val
      then Some (Errorf [Lit ''option --'', VerbS name, Lit '' requires a value''])
      else validateFlags c flags)"
| "validateFlags c (StringFlag n # flags) =
     (let name = Split_first n; val = String c name in
      if MatchString_dash val
      then Some (Errorf [Lit ''option --'', VerbS name, Lit '' requires a value''])
      else validateFlags c flags)"
| "validateFlags c (BoolFlag n # flags) = validateFlags c flags"
| "validateFlags c (BoolTFlag n # flags) = validateFlags c flags"

definition checkAllAndLatest :: "Context \<Rightarrow> error option" where
  "checkAllAndLatest c =
     (let argLen = length (Args c) in
      if (Bool c ''all'' \<or> Bool c ''latest'') \<and> argLen > 0
      then Some (Errorf [Lit ''no arguments are needed with --all or --latest''])
      else if Bool c ''all'' \<and> Bool c ''latest''
      then Some (Errorf [Lit ''--all and --latest cannot be used together''])
      else if argLen < 1 \<and> \<not> Bool c ''all'' \<and> \<not> Bool c ''latest''
      then Some (Errorf [Lit ''you must provide at least one pod name or id''])
      else None)"

text \<open>
  Modelled from the spec: \<open>runtime.GetContainers\<close> belongs to the libpod runtime, which
  is outside the verified files. It asks for all containers; the bulk query is the only
  thing that can fail; a container is kept when every filter given accepts it, and the
  containers keep their order. The filters are the closures the commands pass; they call
  \<open>State\<close>, so they take and return the world and report their events.
\<close>

type_synonym 'w ContainerFilter = "Container \<Rightarrow> 'w \<Rightarrow> bool \<times> event list \<times> 'w"

fun applyFilters :: "'w ContainerFilter list \<Rightarrow> Container \<Rightarrow> 'w \<Rightarrow> bool \<times> event list \<times> 'w" where
  "applyFilters [] ctr w = (True, [], w)"
| "applyFilters (f # fs) ctr w =
     (case f ctr w of (b, ev, w1) \<Rightarrow>
        if b then (case applyFilters fs ctr w1 of (b', ev', w2) \<Rightarrow> (b', ev @ ev', w2))
        else (False, ev, w1))"

fun filterContainers ::
  "'w ContainerFilter list \<Rightarrow> Container list \<Rightarrow> 'w \<Rightarrow> Container list \<times> event list \<times> 'w" where
  "filterContainers fs [] w = ([], [], w)"
| "filterContainers fs (ctr # ctrs) w =
     (case applyFilters fs ctr w of (b, ev, w1) \<Rightarrow>
      case filterContainers fs ctrs w1 of (kept, ev', w2) \<Rightarrow>
        ((if b then [ctr] else []) @ kept, ev @ ev', w2))"

definition GetContainers ::
  "'w Runtime \<Rightarrow> 'w ContainerFilter list \<Rightarrow> 'w \<Rightarrow> (Container list \<times> error option) \<times> event list \<times> 'w" where
  "GetContainers rt fs w =
     (case AllContainers rt w of
        ((ctrs, Some err), w1) \<Rightarrow> (([], Some err), [EvAllContainers ctrs (Some err)], w1)
      | ((ctrs, None), w1) \<Rightarrow>
          (case filterContainers fs ctrs w1 of (kept, ev, w2) \<Rightarrow>
             ((kept, None), EvAllContainers ctrs None # ev, w2)))"




section \<open>containers\_prune.go: prune\<close>

definition pruneFilter :: "'w Runtime \<Rightarrow> 'w ContainerFilter" where
  "pruneFilter rt c w =
     (case State rt c w of ((state, err), w1) \<Rightarrow>
        (state = ContainerStateStopped \<or>
           (state = ContainerStateExited \<and> err = None \<and> PodID c = []),
         [EvState c state err], w1))"

definition pruneContainers ::
  "'w Runtime \<Rightarrow> int \<Rightarrow> bool \<Rightarrow> 'w \<Rightarrow> error option \<times> event list \<times> 'w" where
  "pruneContainers rt maxWorkers force w =
     (case GetContainers rt [pruneFilter rt] w of
        ((delContainers, Some err), ev, w1) \<Rightarrow> (Some err, ev, w1)
      | ((delContainers, None), ev, w1) \<Rightarrow>
          if length delContainers < 1 then (None, ev, w1)
          else
            let deleteFuncs =
                  map (\<lambda>con. \<lparr>ContainerID = ID con, ParallelFunc = RemoveContainerFunc con force\<rparr>)
                    delContainers
            in case ParallelExecuteWorkerPool rt maxWorkers deleteFuncs w1 of
                 ((deleteErrors, errCount), w2) \<Rightarrow>
                   (case printParallelOutput rt deleteErrors errCount of (printed, r) \<Rightarrow>
                      (r,
                       ev @ [EvParallelExecuteWorkerPool maxWorkers deleteFuncs] @ map EvPrintln printed,
                       w2)))"

definition pruneContainersCmd :: "Context \<Rightarrow> 'w Runtime \<Rightarrow> 'w \<Rightarrow> error option \<times> event list \<times> 'w" where
  "pruneContainersCmd c rt w =
     (case GetRuntime rt w of
        (Some err, w1) \<Rightarrow>
          (Some (Wrapf err [Lit ''could not get runtime'']), [EvGetRuntime (Some err)], w1)
      | (None, w1) \<Rightarrow>
          let maxWorkers =
                (if GlobalIsSet c ''max-workers'' then GlobalInt c ''max-workers''
                 else Parallelize rt ''rm'')
          in case pruneContainers rt maxWorkers (Bool c ''force'') w1 of (r, ev, w2) \<Rightarrow>
               (r,
                [EvGetRuntime None,
                 EvLogrusDebugf [Lit ''Setting maximum workers to '', VerbD maxWorkers]]
                  @ ev @ [EvShutdown False],
                Shutdown rt False w2))"

section \<open>containers\_prune.go: start\<close>

text \<open>
  The attach branch of the loop (lines 190 to 213); it always returns. The input stream
  is \<open>os.Stdin\<close> when \<open>interactive\<close> is set and nil otherwise: the boolean says
  which. The last argument of \<open>EvLogrusErrorf\<close> is the error the message prints.
\<close>

definition startCmd_attach ::
  "Context \<Rightarrow> 'w Runtime \<Rightarrow> bool \<Rightarrow> Container \<Rightarrow> bool \<Rightarrow> 'w \<Rightarrow> error option \<times> event list \<times> 'w" where
  "startCmd_attach c rt sigProxy ctr ctrRunning w =
     (let inputStream = Bool c ''interactive''; keys = String c ''detach-keys'' in
      case startAttachCtr rt ctr inputStream keys sigProxy (\<not> ctrRunning) w of (err, w1) \<Rightarrow>
        let ev1 = [EvStartAttachCtr ctr inputStream keys sigProxy (\<not> ctrRunning) err] in
        if ctrRunning then (err, ev1, w1)
        else
          (case err of
             Some e \<Rightarrow> (Some (Wrapf e [Lit ''unable to start container '', VerbS (ID ctr)]), ev1, w1)
           | None \<Rightarrow>
               (case Wait rt ctr w1 of ((ecode, werr), w2) \<Rightarrow>
                  let ev2 =
                        (case werr of
                           Some e \<Rightarrow>
                             [EvLogrusErrorf
                                [Lit ''unable to get exit code of container '', VerbS (ID ctr), Lit '': '']
                                (Some e)]
                         | None \<Rightarrow> [EvExitCode ecode])
                  in case Cleanup rt ctr w2 of (cerr, w3) \<Rightarrow>
                       (cerr, ev1 @ [EvWait ctr ecode werr] @ ev2 @ [EvCleanup ctr cerr], w3))))"

text \<open>What the loop does after a start that failed, before it records the error (lines 220 to 231).\<close>

definition startCmd_failed :: "'w Runtime \<Rightarrow> Container \<Rightarrow> 'w \<Rightarrow> event list \<times> 'w" where
  "startCmd_failed rt ctr w =
     (case GetArtifact rt ctr ''create-config'' w of
        ((artifact, Some artifactErr), w1) \<Rightarrow>
          ([EvGetArtifact ctr ''create-config'' artifact (Some artifactErr)], w1)
      | ((artifact, None), w1) \<Rightarrow>
          (case Unmarshal rt artifact of (rm, jsonErr) \<Rightarrow>
             let ev1 =
                   EvGetArtifact ctr ''create-config'' artifact None #
                   (case jsonErr of
                      Some e \<Rightarrow>
                        [EvLogrusErrorf
                           [Lit ''unable to detect if container '', VerbS (ID ctr), Lit '' should be deleted'']
                           None]
                    | None \<Rightarrow> [])
             in if rm then
                  (case RemoveContainer rt ctr True w1 of (rmErr, w2) \<Rightarrow>
                     (ev1 @ [EvRemoveContainer ctr True rmErr] @
                      (case rmErr of
                         Some e \<Rightarrow>
                           [EvLogrusErrorf
                              [Lit ''unable to remove container '', VerbS (ID ctr),
                               Lit '' after it failed to start'']
                              None]
                       | None \<Rightarrow> []),
                      w2))
                else (ev1, w1)))"

text \<open>
  One round of the loop over the targets (lines 174 to 238): it goes on to the next
  target with the pending error, or it leaves the command.
\<close>

datatype step = Continue "error option" | Exit result

definition startCmd_body ::
  "Context \<Rightarrow> 'w Runtime \<Rightarrow> bool \<Rightarrow> bool \<Rightarrow> string \<Rightarrow> error option \<Rightarrow> 'w \<Rightarrow> step \<times> event list \<times> 'w" where
  "startCmd_body c rt attach sigProxy container lastError w =
     (case LookupContainer rt container w of
        ((ctr, Some err), w1) \<Rightarrow>
          (Continue (Some (Wrapf err [Lit ''unable to find container '', VerbS container])),
           EvLookupContainer container ctr (Some err) # flush lastError, w1)
      | ((None, None), w1) \<Rightarrow> (Exit Panicked, [EvLookupContainer container None None], w1)
      | ((Some ctr, None), w1) \<Rightarrow>
          (case State rt ctr w1 of
             ((ctrState, Some err), w2) \<Rightarrow>
               (Exit (Returned (Some (Wrapf err [Lit ''unable to get container state'']))),
                [EvLookupContainer container (Some ctr) None, EvState ctr ctrState (Some err)], w2)
           | ((ctrState, None), w2) \<Rightarrow>
               let ctrRunning = (ctrState = ContainerStateRunning);
                   ev0 = [EvLookupContainer container (Some ctr) None, EvState ctr ctrState None]
               in if attach then
                    (case startCmd_attach c rt sigProxy ctr ctrRunning w2 of (r, ev, w3) \<Rightarrow>
                       (Exit (Returned r), ev0 @ ev, w3))
                  else if ctrRunning then (Continue lastError, ev0 @ [EvPrintln (ID ctr)], w2)
                  else
                    (case Start rt ctr w2 of
                       (Some err, w3) \<Rightarrow>
                         (case startCmd_failed rt ctr w3 of (ev, w4) \<Rightarrow>
                            (Continue (Some (Wrapf err [Lit ''unable to start container '', VerbQ container])),
                             ev0 @ [EvStart ctr (Some err)] @ ev @ flush lastError, w4))
                     | (None, w3) \<Rightarrow>
                         (Continue lastError, ev0 @ [EvStart ctr None, EvPrintln container], w3))))"

fun startCmd_loop ::
  "Context \<Rightarrow> 'w Runtime \<Rightarrow> bool \<Rightarrow> bool \<Rightarrow> string list \<Rightarrow> error option \<Rightarrow> 'w \<Rightarrow> result \<times> event list \<times> 'w" where
  "startCmd_loop c rt attach sigProxy [] lastError w = (Returned lastError, [], w)"
| "startCmd_loop c rt attach sigProxy (container # args) lastError w =
     (case startCmd_body c rt attach sigProxy container lastError w of
        (Continue lastError', ev, w1) \<Rightarrow>
          (case startCmd_loop c rt attach sigProxy args lastError' w1 of (r, ev', w2) \<Rightarrow>
             (r, ev @ ev', w2))
      | (Exit r, ev, w1) \<Rightarrow> (r, ev, w1))"

text \<open>
  The resolution of \<open>--latest\<close> (lines 162 to 168): the targets with the latest
  container's ID appended, or the way the command ends.
\<close>

definition startCmd_latest ::
  "Context \<Rightarrow> 'w Runtime \<Rightarrow> string list \<Rightarrow> 'w \<Rightarrow> (result + string list) \<times> event list \<times> 'w" where
  "startCmd_latest c rt args w =
     (if Bool c ''latest'' then
        (case GetLatestContainer rt w of
           ((lastCtr, Some err), w1) \<Rightarrow>
             (Inl (Returned (Some (Wrapf err [Lit ''unable to get latest container'']))),
              [EvGetLatestContainer lastCtr (Some err)], w1)
         | ((None, None), w1) \<Rightarrow> (Inl Panicked, [EvGetLatestContainer None None], w1)
         | ((Some lastCtr, None), w1) \<Rightarrow>
             (Inr (args @ [ID lastCtr]), [EvGetLatestContainer (Some lastCtr) None], w1))
      else (Inr args, [], w))"

text \<open>
  The command from the creation of the runtime on (lines 157 to 241). The deferred
  \<open>Shutdown\<close> runs on every way out once the runtime exists.
\<close>

definition startCmd_run ::
  "Context \<Rightarrow> 'w Runtime \<Rightarrow> string list \<Rightarrow> bool \<Rightarrow> bool \<Rightarrow> 'w \<Rightarrow> result \<times> event list \<times> 'w" where
  "startCmd_run c rt args attach sigProxy w =
     (case GetRuntime rt w of
        (Some err, w1) \<Rightarrow>
          (Returned (Some (Wrapf err [Lit ''error creating libpod runtime''])),
           [EvGetRuntime (Some err)], w1)
      | (None, w1) \<Rightarrow>
          (case startCmd_latest c rt args w1 of
             (Inl r, ev, w2) \<Rightarrow> (r, EvGetRuntime None # ev @ [EvShutdown False], Shutdown rt False w2)
           | (Inr args', ev, w2) \<Rightarrow>
               (case startCmd_loop c rt attach sigProxy args' None w2 of (r, ev', w3) \<Rightarrow>
                  (r, EvGetRuntime None # ev @ ev' @ [EvShutdown False], Shutdown rt False w3))))"

definition startCmd :: "Context \<Rightarrow> 'w Runtime \<Rightarrow> 'w \<Rightarrow> result \<times> event list \<times> 'w" where
  "startCmd c rt w =
     (let args = Args c in
      if length args < 1 \<and> \<not> Bool c ''latest''
      then (Returned (Some (Errorf [Lit ''you must provide at least one container name or id''])), [], w)
      else
        let attach = Bool c ''attach'' in
        if length args > 1 \<and> attach
        then (Returned (Some (Errorf [Lit ''you cannot start and attach multiple containers at once''])), [], w)
        else
          (case validateFlags c startFlags of
             Some err \<Rightarrow> (Returned (Some err), [], w)
           | None \<Rightarrow>
               let sigProxy = BoolT c ''sig-proxy'' in
               if sigProxy \<and> \<not> attach \<and> IsSet c ''sig-proxy''
               then (Returned (Some (Wrapf ErrInvalidArg [Lit ''you cannot use sig-proxy without --attach''])),
                     [], w)
               else
                 let sigProxy = (if sigProxy \<and> \<not> attach then False else sigProxy)
                 in startCmd_run c rt args attach sigProxy w))"

section \<open>Reading a list of events\<close>

text \<open>
  The properties below are stated on the events of a run. Each function picks one kind
  of event; \<open>collect\<close> gathers what it picks, in order.
\<close>

abbreviation collect :: "(event \<Rightarrow> 'a list) \<Rightarrow> event list \<Rightarrow> 'a list" where
  "collect f ev \<equiv> concat (map f ev)"






fun printed :: "event \<Rightarrow> string list" where
  "printed (EvPrintln l) = [l]"
| "printed _ = []"

fun state_queries :: "event \<Rightarrow> (Container \<times> ContainerStatus \<times> error option) list" where
  "state_queries (EvState c s e) = [(c, s, e)]"
| "state_queries _ = []"

fun start_calls :: "event \<Rightarrow> Container list" where
  "start_calls (EvStart c e) = [c]"
| "start_calls _ = []"

fun attach_calls :: "event \<Rightarrow> Container list" where
  "attach_calls (EvStartAttachCtr c i k p s e) = [c]"
| "attach_calls _ = []"

fun removals :: "event \<Rightarrow> (Container \<times> bool \<times> error option) list" where
  "removals (EvRemoveContainer c force e) = [(c, force, e)]"
| "removals _ = []"

fun pool_calls :: "event \<Rightarrow> (int \<times> ParallelWorkerInput list) list" where
  "pool_calls (EvParallelExecuteWorkerPool n units) = [(n, units)]"
| "pool_calls _ = []"







fun artifact_loads :: "event \<Rightarrow> (Container \<times> string \<times> string \<times> error option) list" where
  "artifact_loads (EvGetArtifact c key a e) = [(c, key, a, e)]"
| "artifact_loads _ = []"



text \<open>
  What the runtime answers when the state of each container of a list is asked for, in
  order, from a given world: the answers, and the world afterwards.
\<close>

fun query_states ::
  "'w Runtime \<Rightarrow> Container list \<Rightarrow> 'w \<Rightarrow> (Container \<times> ContainerStatus \<times> error option) list \<times> 'w" where
  "query_states rt [] w = ([], w)"
| "query_states rt (c # cs) w =
     (case State rt c w of ((s, e), w1) \<Rightarrow>
      case query_states rt cs w1 of (answers, w2) \<Rightarrow> ((c, s, e) # answers, w2))"

text \<open>The event of a state query, from its answer.\<close>

fun state_event :: "Container \<times> ContainerStatus \<times> error option \<Rightarrow> event" where
  "state_event (c, s, e) = EvState c s e"

text \<open>
  The condition of prune with the error of the state query in it: the state is Stopped,
  or it is Exited, the query reported no error and the container belongs to no pod.
\<close>

fun prune_keeps :: "Container \<times> ContainerStatus \<times> error option \<Rightarrow> bool" where
  "prune_keeps (c, s, e) =
     (s = ContainerStateStopped \<or> (s = ContainerStateExited \<and> e = None \<and> PodID c = []))"

text \<open>
  The prune filter's condition as the specification words it: the state is Stopped, or
  it is Exited and the container belongs to no pod.
\<close>

fun prunable :: "Container \<times> ContainerStatus \<times> error option \<Rightarrow> bool" where
  "prunable (c, s, e) =
     (s = ContainerStateStopped \<or> (s = ContainerStateExited \<and> PodID c = []))"

text \<open>The unit of work \<open>pruneContainers\<close> builds for a container.\<close>

definition removal_unit :: "bool \<Rightarrow> Container \<Rightarrow> ParallelWorkerInput" where
  "removal_unit force con = \<lparr>ContainerID = ID con, ParallelFunc = RemoveContainerFunc con force\<rparr>"

text \<open>
  The selection rules as the specification words them: identifiers together with
  \<open>--all\<close> or \<open>--latest\<close>, \<open>--all\<close> together with \<open>--latest\<close>, or no criterion and
  no identifier.
\<close>

definition violates_selection_rules :: "Context \<Rightarrow> bool" where
  "violates_selection_rules c =
     ((Args c \<noteq> [] \<and> (Bool c ''all'' \<or> Bool c ''latest'')) \<or>
      (Bool c ''all'' \<and> Bool c ''latest'') \<or>
      (Args c = [] \<and> \<not> Bool c ''all'' \<and> \<not> Bool c ''latest''))"

section \<open>A small runtime to run the commands on\<close>

text \<open>
  The world is the list of the containers started so far. Containers are named by their
  ID; \<open>bad\<close> cannot report its state, \<open>f1\<close> and \<open>f2\<close> fail to start, and \<open>f1\<close>
  was created with the remove-on-exit policy.
\<close>

definition demo_ctr :: "string \<Rightarrow> Container" where
  "demo_ctr x = \<lparr>ID = x, PodID = (if x = ''e2'' then ''pod1'' else [])\<rparr>"

definition demo_state :: "string list \<Rightarrow> string \<Rightarrow> ContainerStatus \<times> error option" where
  "demo_state w x =
     (if x = ''bad'' then (ContainerStateUnknown, Some (ErrNew ''cannot sync container''))
      else if x = ''s1'' then (ContainerStateStopped, None)
      else if x = ''s2'' then (ContainerStateStopped, Some (ErrNew ''stale state''))
      else if x = ''e1'' \<or> x = ''e2'' then (ContainerStateExited, None)
      else if x = ''e3'' then (ContainerStateExited, Some (ErrNew ''stale state''))
      else if x \<in> set w then (ContainerStateRunning, None)
      else (ContainerStateCreated, None))"

definition demo :: "string list Runtime" where
  "demo =
     \<lparr>GetRuntime = (\<lambda>w. (None, w)),
      Shutdown = (\<lambda>force w. w),
      LookupContainer = (\<lambda>x w.
        if x \<in> set [''a'', ''c'', ''r1'', ''bad'', ''f1'', ''f2'']
        then ((Some (demo_ctr x), None), w)
        else ((None, Some (ErrNew ''no such container'')), w)),
      GetLatestContainer = (\<lambda>w. ((Some (demo_ctr ''c''), None), w)),
      AllContainers = (\<lambda>w. ((map demo_ctr [''r1'', ''s1'', ''e1'', ''e2'', ''s2'', ''a''], None), w)),
      State = (\<lambda>ctr w. (demo_state w (ID ctr), w)),
      Start = (\<lambda>ctr w.
        if ID ctr = ''f1'' \<or> ID ctr = ''f2'' then (Some (ErrNew ''oci runtime error''), w)
        else (None, ID ctr # w)),
      Wait = (\<lambda>ctr w. ((0, None), w)),
      Cleanup = (\<lambda>ctr w. (None, w)),
      GetArtifact = (\<lambda>ctr key w. ((if ID ctr = ''f1'' then ''rm'' else ''keep'', None), w)),
      RemoveContainer = (\<lambda>ctr force w. (None, w)),
      startAttachCtr = (\<lambda>ctr stdin keys sigProxy startContainer w.
        (None, if startContainer then ID ctr # w else w)),
      Unmarshal = (\<lambda>artifact. (artifact = ''rm'', None)),
      Parallelize = (\<lambda>job. 8),
      ParallelExecuteWorkerPool = (\<lambda>maxWorkers units w. (([], 0), w)),
      printParallelOutput = (\<lambda>m errCount. ([], None))\<rparr>"

text \<open>
  A runtime that lists two containers: \<open>e3\<close>, reported Exited together with an
  error, and \<open>s1\<close>, reported Stopped. Neither belongs to a pod.
\<close>

definition demo_stale :: "string list Runtime" where
  "demo_stale = demo\<lparr>AllContainers := (\<lambda>w. ((map demo_ctr [''e3'', ''s1''], None), w))\<rparr>"

text \<open>A runtime that knows no container at all.\<close>

definition demo_empty :: "string list Runtime" where
  "demo_empty = demo\<lparr>AllContainers := (\<lambda>w. (([], None), w))\<rparr>"

text \<open>
  A command line: the arguments and the flags that are set. \<open>sig-proxy\<close> is a flag
  that is true unless given otherwise.
\<close>

definition demo_ctx :: "string list \<Rightarrow> string list \<Rightarrow> Context" where
  "demo_ctx args flags =
     \<lparr>Args = args,
      Bool = (\<lambda>name. name \<in> set flags),
      BoolT = (\<lambda>name. name \<in> set flags \<or> name = ''sig-proxy''),
      String = (\<lambda>name. []),
      StringSlice = (\<lambda>name. []),
      IsSet = (\<lambda>name. name \<in> set flags),
      GlobalIsSet = (\<lambda>name. False),
      GlobalInt = (\<lambda>name. 0)\<rparr>"


section \<open>Selection by explicit identifiers\<close>









section \<open>The static checks of start\<close>

text \<open>
  Claim C3. With \<open>sig-proxy\<close> true and \<open>attach\<close> false: when the flag was set on
  the command line, \<open>startCmd\<close> fails without any event, so before the runtime is even
  created; when the checks before it pass (a target is named, no flag swallowed the next
  option), the error is the one wrapping \<open>ErrInvalidArg\<close>, whose \<open>Cause\<close> is
  \<open>ErrInvalidArg\<close>. When the flag was left at its default and the checks before it
  pass, the command goes on to the runtime with \<open>sigProxy\<close> false.
\<close>

theorem sig_proxy_without_attach:
  assumes "BoolT c ''sig-proxy''" and "\<not> Bool c ''attach''"
  shows "(IsSet c ''sig-proxy'' \<longrightarrow> (\<exists>e. startCmd c rt w = (Returned (Some e), [], w))) \<and>
         (IsSet c ''sig-proxy'' \<and> (Args c \<noteq> [] \<or> Bool c ''latest'') \<and>
            validateFlags c startFlags = None \<longrightarrow>
            startCmd c rt w =
              (Returned (Some (Wrapf ErrInvalidArg [Lit ''you cannot use sig-proxy without --attach''])),
               [], w)) \<and>
         (\<not> IsSet c ''sig-proxy'' \<and> (Args c \<noteq> [] \<or> Bool c ''latest'') \<and>
            validateFlags c startFlags = None \<longrightarrow>
            startCmd c rt w = startCmd_run c rt (Args c) False False w)"
  using assms
  by (cases "validateFlags c startFlags") (auto simp: startCmd_def Let_def)

lemma demo_validate: "validateFlags (demo_ctx args flags) startFlags = None"
  by (simp add: startFlags_def LatestFlag_def demo_ctx_def Split_first_def)

lemma demo_start_a:
  "startCmd_run (demo_ctx [''a''] []) demo [''a''] False False [] =
     (Returned None,
      [EvGetRuntime None,
       EvLookupContainer ''a'' (Some (demo_ctr ''a'')) None,
       EvState (demo_ctr ''a'') ContainerStateCreated None,
       EvStart (demo_ctr ''a'') None,
       EvPrintln ''a'',
       EvShutdown False],
      [''a''])"
  by (simp add: startCmd_run_def startCmd_latest_def startCmd_body_def demo_ctx_def demo_def
      demo_ctr_def demo_state_def)

text \<open>Claim C3, on the small runtime: \<open>start --sig-proxy a\<close> and \<open>start a\<close>.\<close>

theorem sig_proxy_without_attach_witness:
  "startCmd (demo_ctx [''a''] [''sig-proxy'']) demo [] =
     (Returned (Some (Wrapf ErrInvalidArg [Lit ''you cannot use sig-proxy without --attach''])), [], []) \<and>
   startCmd (demo_ctx [''a''] []) demo [] =
     (Returned None,
      [EvGetRuntime None,
       EvLookupContainer ''a'' (Some (demo_ctr ''a'')) None,
       EvState (demo_ctr ''a'') ContainerStateCreated None,
       EvStart (demo_ctr ''a'') None,
       EvPrintln ''a'',
       EvShutdown False],
      [''a''])"
proof -
  have s: "BoolT (demo_ctx [''a''] [''sig-proxy'']) ''sig-proxy''"
          "\<not> Bool (demo_ctx [''a''] [''sig-proxy'']) ''attach''"
          "IsSet (demo_ctx [''a''] [''sig-proxy'']) ''sig-proxy''"
          "Args (demo_ctx [''a''] [''sig-proxy'']) \<noteq> []"
    by (simp_all add: demo_ctx_def)
  have u: "BoolT (demo_ctx [''a''] []) ''sig-proxy''"
          "\<not> Bool (demo_ctx [''a''] []) ''attach''"
          "\<not> IsSet (demo_ctx [''a''] []) ''sig-proxy''"
          "Args (demo_ctx [''a''] []) \<noteq> []"
          "Args (demo_ctx [''a''] []) = [''a'']"
    by (simp_all add: demo_ctx_def)
  from sig_proxy_without_attach[OF s(1,2), of demo "[]"] s(3,4) demo_validate
  have 1: "startCmd (demo_ctx [''a''] [''sig-proxy'']) demo [] =
     (Returned (Some (Wrapf ErrInvalidArg [Lit ''you cannot use sig-proxy without --attach''])), [], [])"
    by auto
  from sig_proxy_without_attach[OF u(1,2), of demo "[]"] u(3,4,5) demo_validate demo_start_a
  have 2: "startCmd (demo_ctx [''a''] []) demo [] =
     (Returned None,
      [EvGetRuntime None,
       EvLookupContainer ''a'' (Some (demo_ctr ''a'')) None,
       EvState (demo_ctr ''a'') ContainerStateCreated None,
       EvStart (demo_ctr ''a'') None,
       EvPrintln ''a'',
       EvShutdown False],
      [''a''])"
    by auto
  from 1 2 show ?thesis by blast
qed

text \<open>
  Claim C5. The check against attaching to several containers counts the identifiers on
  the command line only. With one identifier, \<open>--latest\<close> and \<open>--attach\<close>, two
  targets are resolved, and the command attaches to the first and returns.
\<close>

theorem attach_with_latest_and_identifier:
  "Args (demo_ctx [''a''] [''latest'', ''attach'']) = [''a''] \<and>
   Bool (demo_ctx [''a''] [''latest'', ''attach'']) ''latest'' \<and>
   Bool (demo_ctx [''a''] [''latest'', ''attach'']) ''attach'' \<and>
   startCmd (demo_ctx [''a''] [''latest'', ''attach'']) demo [] =
     (Returned None,
      [EvGetRuntime None,
       EvGetLatestContainer (Some (demo_ctr ''c'')) None,
       EvLookupContainer ''a'' (Some (demo_ctr ''a'')) None,
       EvState (demo_ctr ''a'') ContainerStateCreated None,
       EvStartAttachCtr (demo_ctr ''a'') False [] True True None,
       EvWait (demo_ctr ''a'') 0 None,
       EvExitCode 0,
       EvCleanup (demo_ctr ''a'') None,
       EvShutdown False],
      [''a'']) \<and>
   collect attach_calls (fst (snd (startCmd (demo_ctx [''a''] [''latest'', ''attach'']) demo []))) =
     [demo_ctr ''a'']"
  by (simp add: startCmd_def startCmd_run_def startCmd_latest_def startCmd_body_def
      startCmd_attach_def startFlags_def LatestFlag_def Split_first_def
      demo_ctx_def demo_def demo_ctr_def demo_state_def)

text \<open>With more than one identifier the command does fail before any call.\<close>

lemma attach_with_several_identifiers:
  "length (Args c) > 1 \<Longrightarrow> Bool c ''attach'' \<Longrightarrow>
     startCmd c rt w =
       (Returned (Some (Errorf [Lit ''you cannot start and attach multiple containers at once''])), [], w)"
  by (auto simp: startCmd_def Let_def)

text \<open>
  Claim C6, as stated, fails for start: identifiers together with \<open>--latest\<close> break
  the selection rules and \<open>checkAllAndLatest\<close> rejects them, but \<open>startCmd\<close> does
  not call it and goes on to the runtime.
\<close>

theorem start_accepts_identifier_with_latest:
  "violates_selection_rules (demo_ctx [''a''] [''latest'']) \<and>
   checkAllAndLatest (demo_ctx [''a''] [''latest'']) =
     Some (Errorf [Lit ''no arguments are needed with --all or --latest'']) \<and>
   startCmd (demo_ctx [''a''] [''latest'']) demo [] =
     (Returned None,
      [EvGetRuntime None,
       EvGetLatestContainer (Some (demo_ctr ''c'')) None,
       EvLookupContainer ''a'' (Some (demo_ctr ''a'')) None,
       EvState (demo_ctr ''a'') ContainerStateCreated None,
       EvStart (demo_ctr ''a'') None,
       EvPrintln ''a'',
       EvLookupContainer ''c'' (Some (demo_ctr ''c'')) None,
       EvState (demo_ctr ''c'') ContainerStateCreated None,
       EvStart (demo_ctr ''c'') None,
       EvPrintln ''c'',
       EvShutdown False],
      [''c'', ''a''])"
  by (simp add: violates_selection_rules_def checkAllAndLatest_def
      startCmd_def startCmd_run_def startCmd_latest_def startCmd_body_def
      startFlags_def LatestFlag_def Split_first_def
      demo_ctx_def demo_def demo_ctr_def demo_state_def)

text \<open>
  Claim C6, amended. \<open>checkAllAndLatest\<close>, which reads the command line only, returns
  an error exactly for the combinations that break the selection rules; and start
  rejects, before any call, a command line with no identifier and no \<open>--latest\<close>.
\<close>

theorem static_selection_checks:
  "(checkAllAndLatest c \<noteq> None \<longleftrightarrow> violates_selection_rules c) \<and>
   (Args c = [] \<and> \<not> Bool c ''latest'' \<longrightarrow>
      startCmd c rt w =
        (Returned (Some (Errorf [Lit ''you must provide at least one container name or id''])), [], w))"
  by (auto simp: checkAllAndLatest_def violates_selection_rules_def startCmd_def Let_def)

text \<open>Claim C6, amended, on four command lines.\<close>

theorem static_selection_checks_witness:
  "checkAllAndLatest (demo_ctx [''a''] [''all'']) \<noteq> None \<and>
   checkAllAndLatest (demo_ctx [] [''all'', ''latest'']) \<noteq> None \<and>
   checkAllAndLatest (demo_ctx [] []) \<noteq> None \<and>
   checkAllAndLatest (demo_ctx [''a''] []) = None \<and>
   startCmd (demo_ctx [] []) demo [] =
     (Returned (Some (Errorf [Lit ''you must provide at least one container name or id''])), [], [])"
proof -
  have v: "violates_selection_rules (demo_ctx [''a''] [''all''])"
    "violates_selection_rules (demo_ctx [] [''all'', ''latest''])"
    "violates_selection_rules (demo_ctx [] [])"
    "\<not> violates_selection_rules (demo_ctx [''a''] [])"
    "Args (demo_ctx [] []) = [] \<and> \<not> Bool (demo_ctx [] []) ''latest''"
    by (simp_all add: violates_selection_rules_def demo_ctx_def)
  show ?thesis
    using static_selection_checks[of "demo_ctx [''a''] [''all'']" demo "[]"]
      static_selection_checks[of "demo_ctx [] [''all'', ''latest'']" demo "[]"]
      static_selection_checks[of "demo_ctx [] []" demo "[]"]
      static_selection_checks[of "demo_ctx [''a''] []" demo "[]"] v
    by blast
qed

section \<open>Prune\<close>

text \<open>
  Claim C10. The filter of prune reads the error of the state query in one branch only:
  a container reported Stopped is kept whatever the error; one reported Exited is kept
  exactly when the query reported no error and the container belongs to no pod.
\<close>

theorem prune_filter_error_channel:
  assumes "State rt c w = ((s, err), w1)"
  shows "(s = ContainerStateStopped \<longrightarrow> fst (pruneFilter rt c w)) \<and>
         (s = ContainerStateExited \<longrightarrow>
            (fst (pruneFilter rt c w) \<longleftrightarrow> err = None \<and> PodID c = []))"
  using assms by (simp add: pruneFilter_def)

text \<open>Claim C10, on the small runtime: \<open>s2\<close> and \<open>e3\<close> report an error with their state.\<close>

theorem prune_filter_error_channel_witness:
  "fst (pruneFilter demo (demo_ctr ''s2'') []) \<and>
   State demo (demo_ctr ''s2'') [] = ((ContainerStateStopped, Some (ErrNew ''stale state'')), []) \<and>
   \<not> fst (pruneFilter demo (demo_ctr ''e3'') []) \<and>
   State demo (demo_ctr ''e3'') [] = ((ContainerStateExited, Some (ErrNew ''stale state'')), []) \<and>
   fst (pruneFilter demo (demo_ctr ''e1'') []) \<and>
   \<not> fst (pruneFilter demo (demo_ctr ''e2'') [])"
proof -
  have s: "State demo (demo_ctr ''s2'') [] = ((ContainerStateStopped, Some (ErrNew ''stale state'')), [])"
    "State demo (demo_ctr ''e3'') [] = ((ContainerStateExited, Some (ErrNew ''stale state'')), [])"
    "State demo (demo_ctr ''e1'') [] = ((ContainerStateExited, None), [])"
    "State demo (demo_ctr ''e2'') [] = ((ContainerStateExited, None), [])"
    by (simp_all add: demo_def demo_ctr_def demo_state_def)
  have p: "PodID (demo_ctr ''e1'') = []" "PodID (demo_ctr ''e2'') \<noteq> []"
    by (simp_all add: demo_ctr_def)
  show ?thesis
    using prune_filter_error_channel[OF s(1)] prune_filter_error_channel[OF s(2)]
      prune_filter_error_channel[OF s(3)] prune_filter_error_channel[OF s(4)] s p
    by simp
qed
lemma filterContainers_prune:
  "filterContainers [pruneFilter rt] ctrs w = (kept, ev, w') \<Longrightarrow>
     map fst (collect state_queries ev) = ctrs \<and>
     kept = map fst (filter prune_keeps (collect state_queries ev)) \<and>
     collect pool_calls ev = [] \<and>
     (\<forall>cs e. EvAllContainers cs e \<notin> set ev)"
proof (induction ctrs arbitrary: w kept ev w')
  case Nil
  then show ?case by simp
next
  case (Cons c ctrs)
  obtain s err w1 where S: "State rt c w = ((s, err), w1)"
    by (metis surj_pair)
  obtain kept2 ev2 w2 where R: "filterContainers [pruneFilter rt] ctrs w1 = (kept2, ev2, w2)"
    by (metis surj_pair)
  from S have P: "pruneFilter rt c w = (prune_keeps (c, s, err), [EvState c s err], w1)"
    by (simp add: pruneFilter_def)
  from Cons.prems P R
  have ev: "ev = EvState c s err # ev2"
    and kept: "kept = (if prune_keeps (c, s, err) then [c] else []) @ kept2"
    by (simp_all del: prune_keeps.simps split: if_splits)
  from Cons.IH[OF R] ev kept show ?case
    by simp
qed

lemma GetContainers_prune:
  assumes "GetContainers rt [pruneFilter rt] w = ((kept, err), ev, w')"
  shows "collect pool_calls ev = []"
    and "err = None \<Longrightarrow>
          \<exists>ctrs ev2. ev = EvAllContainers ctrs None # ev2 \<and>
            (\<forall>cs e. EvAllContainers cs e \<notin> set ev2) \<and>
            map fst (collect state_queries ev2) = ctrs \<and>
            kept = map fst (filter prune_keeps (collect state_queries ev2))"
    and "err \<noteq> None \<Longrightarrow> \<forall>cs. EvAllContainers cs None \<notin> set ev"
proof -
  obtain ctrs aerr w1 where A: "AllContainers rt w = ((ctrs, aerr), w1)"
    by (metis surj_pair)
  obtain k2 ev2 w2 where F: "filterContainers [pruneFilter rt] ctrs w1 = (k2, ev2, w2)"
    by (metis surj_pair)
  note P = filterContainers_prune[OF F]
  show "collect pool_calls ev = []"
    using assms A F P by (cases aerr) (auto simp: GetContainers_def)
  show "\<exists>ctrs ev2. ev = EvAllContainers ctrs None # ev2 \<and>
            (\<forall>cs e. EvAllContainers cs e \<notin> set ev2) \<and>
            map fst (collect state_queries ev2) = ctrs \<and>
            kept = map fst (filter prune_keeps (collect state_queries ev2))" if "err = None"
    using that assms A F P by (cases aerr) (auto simp: GetContainers_def)
  show "\<forall>cs. EvAllContainers cs None \<notin> set ev" if "err \<noteq> None"
    using that assms A F by (cases aerr) (auto simp: GetContainers_def)
qed

lemma removal_unit_fun:
  "(\<lambda>con. \<lparr>ContainerID = ID con, ParallelFunc = RemoveContainerFunc con force\<rparr>) = removal_unit force"
  by (rule ext) (simp add: removal_unit_def)

text \<open>
  Claim C9. When the filtered query returns no container, \<open>pruneContainers\<close> returns
  nil with the events of the query alone: the worker pool is not called.
\<close>

theorem prune_nothing_to_do:
  assumes "GetContainers rt [pruneFilter rt] w = (([], None), ev, w')"
  shows "pruneContainers rt maxWorkers force w = (None, ev, w') \<and> collect pool_calls ev = []"
  using assms GetContainers_prune(1)[OF assms]
  by (simp add: pruneContainers_def)
lemma demo_empty_get:
  "GetContainers demo_empty [pruneFilter demo_empty] [] = (([], None), [EvAllContainers [] None], [])"
  by (simp add: GetContainers_def demo_empty_def demo_def)

text \<open>Claim C9, on a runtime with no container.\<close>

theorem prune_nothing_to_do_witness:
  "pruneContainers demo_empty 4 True [] = (None, [EvAllContainers [] None], []) \<and>
   collect pool_calls [EvAllContainers [] None] = []"
  using prune_nothing_to_do[OF demo_empty_get, of 4 True] by simp
lemma filterContainers_prune_run:
  "query_states rt ctrs w = (answers, w') \<Longrightarrow>
     filterContainers [pruneFilter rt] ctrs w =
       (map fst (filter prune_keeps answers), map state_event answers, w') \<and>
     map fst answers = ctrs"
proof (induction ctrs arbitrary: w answers w')
  case Nil
  then show ?case by simp
next
  case (Cons c ctrs)
  obtain s err w1 where S: "State rt c w = ((s, err), w1)"
    by (metis surj_pair)
  obtain answers2 w2 where Q: "query_states rt ctrs w1 = (answers2, w2)"
    by (metis surj_pair)
  from Cons.prems S Q have a: "answers = (c, s, err) # answers2" and w: "w' = w2"
    by simp_all
  from S have P: "pruneFilter rt c w = (prune_keeps (c, s, err), [EvState c s err], w1)"
    by (simp add: pruneFilter_def)
  from Cons.IH[OF Q] P a w show ?case
    by (simp del: prune_keeps.simps)
qed

text \<open>
  Claim C7, as stated, fails when a state query reports Exited together with an error:
  \<open>e3\<close> is reported Exited and belongs to no pod, and no unit is built for it.
\<close>

theorem exited_with_query_error_not_pruned:
  "AllContainers demo_stale [] = ((map demo_ctr [''e3'', ''s1''], None), []) \<and>
   State demo_stale (demo_ctr ''e3'') [] =
     ((ContainerStateExited, Some (ErrNew ''stale state'')), []) \<and>
   PodID (demo_ctr ''e3'') = [] \<and>
   prunable (demo_ctr ''e3'', ContainerStateExited, Some (ErrNew ''stale state'')) \<and>
   pruneContainers demo_stale 4 False [] =
     (None,
      [EvAllContainers (map demo_ctr [''e3'', ''s1'']) None,
       EvState (demo_ctr ''e3'') ContainerStateExited (Some (ErrNew ''stale state'')),
       EvState (demo_ctr ''s1'') ContainerStateStopped None,
       EvParallelExecuteWorkerPool 4 [removal_unit False (demo_ctr ''s1'')]],
      [])"
  by (simp add: pruneContainers_def GetContainers_def pruneFilter_def removal_unit_def
      demo_stale_def demo_def demo_ctr_def demo_state_def)

text \<open>
  Claim C7, amended. Let the runtime list the containers \<open>ctrs\<close> and answer the state
  queries on them, in order, with \<open>answers\<close>. Then \<open>pruneContainers\<close> queries the state
  of every listed container once, in that order, and selects a container exactly when
  its query reported Stopped, or reported Exited with no error while the container
  belongs to no pod. With no container selected it returns nil without calling the worker
  pool; otherwise it calls the pool once, with the worker count it was given and exactly
  one unit for each selected container, in order: the removal of that container with the
  force value it was given, tagged with the container's ID; and it returns what
  \<open>printParallelOutput\<close> makes of the pool's result.
\<close>

theorem prune_selection:
  assumes bulk: "AllContainers rt w = ((ctrs, None), w1)"
    and answers: "query_states rt ctrs w1 = (answers, w2)"
  shows "map fst answers = ctrs \<and>
         pruneContainers rt maxWorkers force w =
           (let units = map (removal_unit force) (map fst (filter prune_keeps answers));
                ev = EvAllContainers ctrs None # map state_event answers
            in if units = [] then (None, ev, w2)
               else
                 case ParallelExecuteWorkerPool rt maxWorkers units w2 of
                   ((deleteErrors, errCount), w3) \<Rightarrow>
                     (case printParallelOutput rt deleteErrors errCount of
                        (out, r) \<Rightarrow>
                          (r, ev @ [EvParallelExecuteWorkerPool maxWorkers units] @ map EvPrintln out, w3)))"
proof -
  note F = filterContainers_prune_run[OF answers]
  from bulk F have G: "GetContainers rt [pruneFilter rt] w =
      ((map fst (filter prune_keeps answers), None),
       EvAllContainers ctrs None # map state_event answers, w2)"
    by (simp add: GetContainers_def)
  show ?thesis
    using F G
    by (cases "filter prune_keeps answers = []")
       (simp_all add: pruneContainers_def Let_def removal_unit_fun del: prune_keeps.simps)
qed

text \<open>
  Claim C7, amended, on the small runtime, which lists six containers: without and with
  force, and through the command, which takes the worker count from \<open>Parallelize\<close> and
  the force value from the command line.
\<close>

theorem prune_selection_witness:
  "pruneContainers demo 4 False [] =
     (None,
      [EvAllContainers (map demo_ctr [''r1'', ''s1'', ''e1'', ''e2'', ''s2'', ''a'']) None,
       EvState (demo_ctr ''r1'') ContainerStateCreated None,
       EvState (demo_ctr ''s1'') ContainerStateStopped None,
       EvState (demo_ctr ''e1'') ContainerStateExited None,
       EvState (demo_ctr ''e2'') ContainerStateExited None,
       EvState (demo_ctr ''s2'') ContainerStateStopped (Some (ErrNew ''stale state'')),
       EvState (demo_ctr ''a'') ContainerStateCreated None,
       EvParallelExecuteWorkerPool 4
         [removal_unit False (demo_ctr ''s1''), removal_unit False (demo_ctr ''e1''),
          removal_unit False (demo_ctr ''s2'')]],
      []) \<and>
   pruneContainers demo 4 True [] =
     (None,
      [EvAllContainers (map demo_ctr [''r1'', ''s1'', ''e1'', ''e2'', ''s2'', ''a'']) None,
       EvState (demo_ctr ''r1'') ContainerStateCreated None,
       EvState (demo_ctr ''s1'') ContainerStateStopped None,
       EvState (demo_ctr ''e1'') ContainerStateExited None,
       EvState (demo_ctr ''e2'') ContainerStateExited None,
       EvState (demo_ctr ''s2'') ContainerStateStopped (Some (ErrNew ''stale state'')),
       EvState (demo_ctr ''a'') ContainerStateCreated None,
       EvParallelExecuteWorkerPool 4
         [removal_unit True (demo_ctr ''s1''), removal_unit True (demo_ctr ''e1''),
          removal_unit True (demo_ctr ''s2'')]],
      []) \<and>
   pruneContainersCmd (demo_ctx [] []) demo [] =
     (None,
      [EvGetRuntime None,
       EvLogrusDebugf [Lit ''Setting maximum workers to '', VerbD 8],
       EvAllContainers (map demo_ctr [''r1'', ''s1'', ''e1'', ''e2'', ''s2'', ''a'']) None,
       EvState (demo_ctr ''r1'') ContainerStateCreated None,
       EvState (demo_ctr ''s1'') ContainerStateStopped None,
       EvState (demo_ctr ''e1'') ContainerStateExited None,
       EvState (demo_ctr ''e2'') ContainerStateExited None,
       EvState (demo_ctr ''s2'') ContainerStateStopped (Some (ErrNew ''stale state'')),
       EvState (demo_ctr ''a'') ContainerStateCreated None,
       EvParallelExecuteWorkerPool 8
         [removal_unit False (demo_ctr ''s1''), removal_unit False (demo_ctr ''e1''),
          removal_unit False (demo_ctr ''s2'')],
       EvShutdown False],
      [])"
proof -
  have bulk: "AllContainers demo [] =
      ((map demo_ctr [''r1'', ''s1'', ''e1'', ''e2'', ''s2'', ''a''], None), [])"
    by (simp add: demo_def)
  have answers: "query_states demo (map demo_ctr [''r1'', ''s1'', ''e1'', ''e2'', ''s2'', ''a'']) [] =
      ([(demo_ctr ''r1'', ContainerStateCreated, None),
        (demo_ctr ''s1'', ContainerStateStopped, None),
        (demo_ctr ''e1'', ContainerStateExited, None),
        (demo_ctr ''e2'', ContainerStateExited, None),
        (demo_ctr ''s2'', ContainerStateStopped, Some (ErrNew ''stale state'')),
        (demo_ctr ''a'', ContainerStateCreated, None)], [])"
    by (simp add: demo_def demo_ctr_def demo_state_def)
  have pods: "PodID (demo_ctr ''s1'') = []" "PodID (demo_ctr ''e1'') = []"
    "PodID (demo_ctr ''e2'') \<noteq> []" "PodID (demo_ctr ''s2'') = []"
    by (simp_all add: demo_ctr_def)
  have pool: "ParallelExecuteWorkerPool demo n units [] = (([], 0), [])"
    "printParallelOutput demo [] 0 = ([], None)" for n units
    by (simp_all add: demo_def)
  have rt: "GetRuntime demo [] = (None, [])" "Shutdown demo False [] = []"
    "Parallelize demo ''rm'' = 8"
    "\<not> GlobalIsSet (demo_ctx [] []) ''max-workers''" "\<not> Bool (demo_ctx [] []) ''force''"
    by (simp_all add: demo_def demo_ctx_def)
  have 1: "pruneContainers demo n force [] =
     (None,
      [EvAllContainers (map demo_ctr [''r1'', ''s1'', ''e1'', ''e2'', ''s2'', ''a'']) None,
       EvState (demo_ctr ''r1'') ContainerStateCreated None,
       EvState (demo_ctr ''s1'') ContainerStateStopped None,
       EvState (demo_ctr ''e1'') ContainerStateExited None,
       EvState (demo_ctr ''e2'') ContainerStateExited None,
       EvState (demo_ctr ''s2'') ContainerStateStopped (Some (ErrNew ''stale state'')),
       EvState (demo_ctr ''a'') ContainerStateCreated None,
       EvParallelExecuteWorkerPool n
         [removal_unit force (demo_ctr ''s1''), removal_unit force (demo_ctr ''e1''),
          removal_unit force (demo_ctr ''s2'')]],
      [])" for n force
    using prune_selection[OF bulk answers, of n force] pods pool
    by simp
  from 1[of 4 False] 1[of 4 True] 1[of 8 False] rt show ?thesis
    by (simp add: pruneContainersCmd_def)
qed

section \<open>The loop of start\<close>

lemma flush_events:
  "collect start_calls (flush le) = []"
  "collect removals (flush le) = []"
  "collect artifact_loads (flush le) = []"
  "collect state_queries (flush le) = []"
  "EvStart c e \<notin> set (flush le)"
  "EvState c s e \<notin> set (flush le)"
  by (cases le; simp)+


lemma startCmd_failed_run:
  assumes A: "GetArtifact rt ctr ''create-config'' w = ((artifact, aerr), w1)"
    and R: "RemoveContainer rt ctr True w1 = (rmErr, w2)"
  shows "\<exists>ev. startCmd_failed rt ctr w =
                (ev, if aerr = None \<and> fst (Unmarshal rt artifact) then w2 else w1) \<and>
              collect artifact_loads ev = [(ctr, ''create-config'', artifact, aerr)] \<and>
              collect removals ev =
                (if aerr = None \<and> fst (Unmarshal rt artifact) then [(ctr, True, rmErr)] else []) \<and>
              collect start_calls ev = []"
proof -
  obtain rm jsonErr where U: "Unmarshal rt artifact = (rm, jsonErr)"
    by (metis surj_pair)
  define logs1 where "logs1 =
    (case jsonErr of
       Some e \<Rightarrow> [EvLogrusErrorf [Lit ''unable to detect if container '', VerbS (ID ctr),
                    Lit '' should be deleted''] None]
     | None \<Rightarrow> [])"
  define logs2 where "logs2 =
    (case rmErr of
       Some e \<Rightarrow> [EvLogrusErrorf [Lit ''unable to remove container '', VerbS (ID ctr),
                    Lit '' after it failed to start''] None]
     | None \<Rightarrow> [])"
  define ev where "ev =
      (if aerr = None
       then EvGetArtifact ctr ''create-config'' artifact None # logs1 @
            (if rm then EvRemoveContainer ctr True rmErr # logs2 else [])
       else [EvGetArtifact ctr ''create-config'' artifact aerr])"
  have L1: "collect artifact_loads logs1 = []" "collect removals logs1 = []"
    "collect start_calls logs1 = []"
    by (cases jsonErr; simp add: logs1_def)+
  have L2: "collect artifact_loads logs2 = []" "collect removals logs2 = []"
    "collect start_calls logs2 = []"
    by (cases rmErr; simp add: logs2_def)+
  have run: "startCmd_failed rt ctr w = (ev, if aerr = None \<and> rm then w2 else w1)"
    using A U R
    by (cases aerr; cases rm) (simp_all add: startCmd_failed_def ev_def logs1_def logs2_def)
  have "collect artifact_loads ev = [(ctr, ''create-config'', artifact, aerr)]"
    "collect removals ev = (if aerr = None \<and> rm then [(ctr, True, rmErr)] else [])"
    "collect start_calls ev = []"
    using L1 L2 by (cases aerr; cases rm; simp add: ev_def del: concat_eq_Nil_conv)+
  with run U show ?thesis
    by auto
qed


text \<open>
  Claim C2. A round of the loop without attach on a container that is found, is not
  running, and whose start the runtime fails: the round calls the start once and asks
  for the artifact \<open>create-config\<close> once; when the runtime loads the artifact and the
  \<open>Rm\<close> field decoded from it is set, it calls the removal of that container, forced,
  exactly once, and leaves the world the removal made; otherwise it calls no removal and
  leaves the world the artifact call made. In every case, whatever the artifact call and
  the removal answer, the error recorded for the target is the wrapper of the start
  error.
\<close>

theorem failed_start_removal:
  assumes lookup: "LookupContainer rt container w = ((Some ctr, None), w1)"
    and state: "State rt ctr w1 = ((s, None), w2)"
    and stopped: "s \<noteq> ContainerStateRunning"
    and start: "Start rt ctr w2 = (Some err, w3)"
    and artifact: "GetArtifact rt ctr ''create-config'' w3 = ((artifact, aerr), w4)"
    and removal: "RemoveContainer rt ctr True w4 = (rmErr, w5)"
  shows "\<exists>ev. startCmd_body c rt False sigProxy container lastError w =
                (Continue (Some (Wrapf err [Lit ''unable to start container '', VerbQ container])),
                 ev,
                 if aerr = None \<and> fst (Unmarshal rt artifact) then w5 else w4) \<and>
              collect start_calls ev = [ctr] \<and>
              collect artifact_loads ev = [(ctr, ''create-config'', artifact, aerr)] \<and>
              collect removals ev =
                (if aerr = None \<and> fst (Unmarshal rt artifact) then [(ctr, True, rmErr)] else [])"
proof -
  from startCmd_failed_run[OF artifact removal] obtain ev2 where
    F: "startCmd_failed rt ctr w3 =
          (ev2, if aerr = None \<and> fst (Unmarshal rt artifact) then w5 else w4)"
    and a: "collect artifact_loads ev2 = [(ctr, ''create-config'', artifact, aerr)]"
    and r: "collect removals ev2 =
              (if aerr = None \<and> fst (Unmarshal rt artifact) then [(ctr, True, rmErr)] else [])"
    and t: "collect start_calls ev2 = []"
    by blast
  let ?ev = "[EvLookupContainer container (Some ctr) None, EvState ctr s None, EvStart ctr (Some err)]
               @ ev2 @ flush lastError"
  have "startCmd_body c rt False sigProxy container lastError w =
          (Continue (Some (Wrapf err [Lit ''unable to start container '', VerbQ container])),
           ?ev,
           if aerr = None \<and> fst (Unmarshal rt artifact) then w5 else w4)"
    using lookup state stopped start F by (simp add: startCmd_body_def)
  moreover have "collect start_calls ?ev = [ctr]"
    "collect artifact_loads ?ev = [(ctr, ''create-config'', artifact, aerr)]"
    "collect removals ?ev =
       (if aerr = None \<and> fst (Unmarshal rt artifact) then [(ctr, True, rmErr)] else [])"
    using a r t by (simp_all add: flush_events del: concat_eq_Nil_conv)
  ultimately show ?thesis
    by blast
qed

lemma demo_body_f1:
  "startCmd_body (demo_ctx [] []) demo False False ''f1'' None [] =
     (Continue (Some (Wrapf (ErrNew ''oci runtime error'') [Lit ''unable to start container '', VerbQ ''f1''])),
      [EvLookupContainer ''f1'' (Some (demo_ctr ''f1'')) None,
       EvState (demo_ctr ''f1'') ContainerStateCreated None,
       EvStart (demo_ctr ''f1'') (Some (ErrNew ''oci runtime error'')),
       EvGetArtifact (demo_ctr ''f1'') ''create-config'' ''rm'' None,
       EvRemoveContainer (demo_ctr ''f1'') True None],
      [])"
  by (simp add: startCmd_body_def startCmd_failed_def demo_def demo_ctr_def demo_state_def)

lemma demo_body_f2:
  "startCmd_body (demo_ctx [] []) demo False False ''f2'' None [] =
     (Continue (Some (Wrapf (ErrNew ''oci runtime error'') [Lit ''unable to start container '', VerbQ ''f2''])),
      [EvLookupContainer ''f2'' (Some (demo_ctr ''f2'')) None,
       EvState (demo_ctr ''f2'') ContainerStateCreated None,
       EvStart (demo_ctr ''f2'') (Some (ErrNew ''oci runtime error'')),
       EvGetArtifact (demo_ctr ''f2'') ''create-config'' ''keep'' None],
      [])"
  by (simp add: startCmd_body_def startCmd_failed_def demo_def demo_ctr_def demo_state_def)

text \<open>Claim C2, on the small runtime: \<open>f1\<close> has the policy, \<open>f2\<close> has not.\<close>

theorem failed_start_removal_witness:
  "startCmd_body (demo_ctx [] []) demo False False ''f1'' None [] =
     (Continue (Some (Wrapf (ErrNew ''oci runtime error'') [Lit ''unable to start container '', VerbQ ''f1''])),
      [EvLookupContainer ''f1'' (Some (demo_ctr ''f1'')) None,
       EvState (demo_ctr ''f1'') ContainerStateCreated None,
       EvStart (demo_ctr ''f1'') (Some (ErrNew ''oci runtime error'')),
       EvGetArtifact (demo_ctr ''f1'') ''create-config'' ''rm'' None,
       EvRemoveContainer (demo_ctr ''f1'') True None],
      []) \<and>
   collect removals (fst (snd (startCmd_body (demo_ctx [] []) demo False False ''f1'' None []))) =
     [(demo_ctr ''f1'', True, None)] \<and>
   startCmd_body (demo_ctx [] []) demo False False ''f2'' None [] =
     (Continue (Some (Wrapf (ErrNew ''oci runtime error'') [Lit ''unable to start container '', VerbQ ''f2''])),
      [EvLookupContainer ''f2'' (Some (demo_ctr ''f2'')) None,
       EvState (demo_ctr ''f2'') ContainerStateCreated None,
       EvStart (demo_ctr ''f2'') (Some (ErrNew ''oci runtime error'')),
       EvGetArtifact (demo_ctr ''f2'') ''create-config'' ''keep'' None],
      []) \<and>
   collect removals (fst (snd (startCmd_body (demo_ctx [] []) demo False False ''f2'' None []))) = []"
proof -
  have f1: "LookupContainer demo ''f1'' [] = ((Some (demo_ctr ''f1''), None), [])"
    "State demo (demo_ctr ''f1'') [] = ((ContainerStateCreated, None), [])"
    "ContainerStateCreated \<noteq> ContainerStateRunning"
    "Start demo (demo_ctr ''f1'') [] = (Some (ErrNew ''oci runtime error''), [])"
    "GetArtifact demo (demo_ctr ''f1'') ''create-config'' [] = ((''rm'', None), [])"
    "RemoveContainer demo (demo_ctr ''f1'') True [] = (None, [])"
    "fst (Unmarshal demo ''rm'')"
    by (simp_all add: demo_def demo_ctr_def demo_state_def)
  have f2: "LookupContainer demo ''f2'' [] = ((Some (demo_ctr ''f2''), None), [])"
    "State demo (demo_ctr ''f2'') [] = ((ContainerStateCreated, None), [])"
    "ContainerStateCreated \<noteq> ContainerStateRunning"
    "Start demo (demo_ctr ''f2'') [] = (Some (ErrNew ''oci runtime error''), [])"
    "GetArtifact demo (demo_ctr ''f2'') ''create-config'' [] = ((''keep'', None), [])"
    "RemoveContainer demo (demo_ctr ''f2'') True [] = (None, [])"
    "\<not> fst (Unmarshal demo ''keep'')"
    by (simp_all add: demo_def demo_ctr_def demo_state_def)
  from failed_start_removal[OF f1(1-6), of "demo_ctx [] []" False None] f1(7) demo_body_f1
  have 1: "collect removals (fst (snd (startCmd_body (demo_ctx [] []) demo False False ''f1'' None []))) =
     [(demo_ctr ''f1'', True, None)]"
    by auto
  from failed_start_removal[OF f2(1-6), of "demo_ctx [] []" False None] f2(7) demo_body_f2
  have 2: "collect removals (fst (snd (startCmd_body (demo_ctx [] []) demo False False ''f2'' None []))) = []"
    by auto
  from 1 2 demo_body_f1 demo_body_f2 show ?thesis
    by simp
qed


















end
